theory Spec2Isabelle
  imports Complex_Main
begin

section \<open>Data model (types.ts)\<close>

text \<open>
  The engine of \<^verbatim>\<open>src/utils/calculations.ts\<close> is embedded as pure functions.
  A JavaScript \<^verbatim>\<open>number\<close> that holds money or a rate is a \<^typ>\<open>real\<close>: the arithmetic
  is exact, and NaN, the infinities and the rounding error of doubles are not represented.
  The three ages of the settings are whole numbers (the forms read them with
  \<^verbatim>\<open>parseInt\<close>), so they are \<^typ>\<open>int\<close>; the ages of an income stream are read with
  \<^verbatim>\<open>parseFloat\<close> and stay \<^typ>\<open>real\<close>. The fields \<^verbatim>\<open>id\<close>, \<^verbatim>\<open>name\<close> and \<^verbatim>\<open>type\<close>
  carry a prefix, since both interfaces declare them.
\<close>

datatype AssetType = FOUR_01K | ROTH_IRA | BROKERAGE | SAVINGS

record Asset =
  a_id :: string
  a_name :: string
  balance :: real
  contribution :: real
  returnRate :: real
  a_type :: AssetType

record IncomeStream =
  s_id :: string
  s_name :: string
  monthlyAmount :: real
  startAge :: real
  endAge :: real
  growthRate :: real
  isTaxable :: bool

record FinancialSettings =
  currentAge :: int
  retirementAge :: int
  planningHorizon :: int
  monthlySpending :: real
  inflationRate :: real
  preRetirementReturn :: real

record YearData =
  age :: int
  year :: int
  expenses :: int
  totalIncome :: int
  portfolioBalance :: int
  shortfall :: int
  withdrawals :: int
  breakdown :: "string \<rightharpoonup> int"

record SimulationResult =
  success :: bool
  depletionAge :: "int option"
  finalBalance :: real
  data :: "YearData list"

section \<open>The engine (calculations.ts, runSimulation)\<close>

text \<open>\<^verbatim>\<open>Math.round\<close>: the nearest integer, a tie going towards plus infinity.\<close>

definition math_round :: "real \<Rightarrow> int" where
  "math_round x = \<lfloor>x + 1 / 2\<rfloor>"

text \<open>\<^verbatim>\<open>xs.reduce((sum, a) => sum + a.balance, 0)\<close>, lines 14, 78 and 106.\<close>

definition totalBalance :: "Asset list \<Rightarrow> real" where
  "totalBalance xs = foldl (\<lambda>sum a. sum + balance a) 0 xs"

text \<open>Line 13: \<^verbatim>\<open>assets.map(a => ({ ...a }))\<close>, a fresh record with the same fields.\<close>

definition copyAsset :: "Asset \<Rightarrow> Asset" where
  "copyAsset a = \<lparr>a_id = a_id a, a_name = a_name a, balance = balance a,
     contribution = contribution a, returnRate = returnRate a, a_type = a_type a\<rparr>"

text \<open>Lines 18 to 24: the age of year \<open>i\<close>, retirement status, inflation, expense.\<close>

definition ageOf :: "FinancialSettings \<Rightarrow> nat \<Rightarrow> int" where
  "ageOf settings i = currentAge settings + int i"

definition isRetired :: "FinancialSettings \<Rightarrow> nat \<Rightarrow> bool" where
  "isRetired settings i = (ageOf settings i \<ge> retirementAge settings)"

definition inflationMultiplier :: "FinancialSettings \<Rightarrow> nat \<Rightarrow> real" where
  "inflationMultiplier settings i = (1 + inflationRate settings / 100) ^ i"

definition requiredAnnualExpense :: "FinancialSettings \<Rightarrow> nat \<Rightarrow> real" where
  "requiredAnnualExpense settings i =
     monthlySpending settings * 12 * inflationMultiplier settings i"

text \<open>
  Lines 30 to 43: the pass over the income streams. The accumulator is the pair of
  \<^verbatim>\<open>totalFixedIncome\<close> and \<^verbatim>\<open>breakdown\<close>. (\<^verbatim>\<open>streamYearsActive\<close> is computed and
  never read.)
\<close>

definition isActive :: "int \<Rightarrow> IncomeStream \<Rightarrow> bool" where
  "isActive cAge stream =
     (real_of_int cAge \<ge> startAge stream \<and> real_of_int cAge \<le> endAge stream)"

definition annualAmount :: "nat \<Rightarrow> IncomeStream \<Rightarrow> real" where
  "annualAmount i stream =
     monthlyAmount stream * 12 * (1 + growthRate stream / 100) ^ i"

definition streamStep ::
  "int \<Rightarrow> nat \<Rightarrow> real \<times> (string \<rightharpoonup> int) \<Rightarrow> IncomeStream \<Rightarrow> real \<times> (string \<rightharpoonup> int)" where
  "streamStep cAge i acc stream =
     (if isActive cAge stream
      then (fst acc + annualAmount i stream,
            (snd acc)(s_name stream \<mapsto> math_round (annualAmount i stream)))
      else acc)"

definition processIncome ::
  "int \<Rightarrow> nat \<Rightarrow> IncomeStream list \<Rightarrow> real \<times> (string \<rightharpoonup> int)" where
  "processIncome cAge i incomeStreams =
     foldl (streamStep cAge i) (0, Map.empty) incomeStreams"

definition totalFixedIncome :: "FinancialSettings \<Rightarrow> IncomeStream list \<Rightarrow> nat \<Rightarrow> real" where
  "totalFixedIncome settings incomeStreams i =
     fst (processIncome (ageOf settings i) i incomeStreams)"

definition incomeBreakdown ::
  "FinancialSettings \<Rightarrow> IncomeStream list \<Rightarrow> nat \<Rightarrow> (string \<rightharpoonup> int)" where
  "incomeBreakdown settings incomeStreams i =
     snd (processIncome (ageOf settings i) i incomeStreams)"

text \<open>
  Lines 49 to 63: growth on the balance as it stands, then the contribution when not
  retired. (\<^verbatim>\<open>totalAssetGrowth\<close> and \<^verbatim>\<open>totalContributions\<close> are summed and never read.)
\<close>

definition growAsset :: "bool \<Rightarrow> real \<Rightarrow> Asset \<Rightarrow> Asset" where
  "growAsset retired infl asset =
     (let growth = balance asset * (returnRate asset / 100);
          grown = asset\<lparr>balance := balance asset + growth\<rparr>
      in if \<not> retired
         then grown\<lparr>balance := balance grown + contribution grown * infl\<rparr>
         else grown)"

definition grownAssets :: "FinancialSettings \<Rightarrow> nat \<Rightarrow> Asset list \<Rightarrow> Asset list" where
  "grownAssets settings i assets =
     map (growAsset (isRetired settings i) (inflationMultiplier settings i)) assets"

text \<open>Lines 66 to 74: the withdrawal need.\<close>

definition withdrawalNeeded :: "FinancialSettings \<Rightarrow> IncomeStream list \<Rightarrow> nat \<Rightarrow> real" where
  "withdrawalNeeded settings incomeStreams i =
     (if isRetired settings i
      then (let gap = requiredAnnualExpense settings i - totalFixedIncome settings incomeStreams i
            in if gap > 0 then gap else 0)
      else 0)"

text \<open>
  Lines 77 to 98: the drawdown. \<^verbatim>\<open>!depletionAge\<close> is true of \<^verbatim>\<open>null\<close> and of the
  number 0.
\<close>

definition notSet :: "int option \<Rightarrow> bool" where
  "notSet d = (case d of None \<Rightarrow> True | Some n \<Rightarrow> n = 0)"

record Drawdown =
  dd_assets :: "Asset list"
  actualWithdrawal :: real
  shortage :: real
  dd_depletionAge :: "int option"

definition executeWithdrawal :: "int \<Rightarrow> real \<Rightarrow> Asset list \<Rightarrow> int option \<Rightarrow> Drawdown" where
  "executeWithdrawal cAge needed assets dAge =
     (let totalAvailable = totalBalance assets in
      if needed > 0 \<and> totalAvailable > 0 then
        (if totalAvailable \<ge> needed
         then \<lparr>dd_assets = map (\<lambda>asset. asset\<lparr>balance :=
                   balance asset - needed * (balance asset / totalAvailable)\<rparr>) assets,
               actualWithdrawal = needed, shortage = 0, dd_depletionAge = dAge\<rparr>
         else \<lparr>dd_assets = map (\<lambda>asset. asset\<lparr>balance := 0\<rparr>) assets,
               actualWithdrawal = totalAvailable, shortage = needed - totalAvailable,
               dd_depletionAge = (if notSet dAge then Some cAge else dAge)\<rparr>)
      else if needed > 0 \<and> totalAvailable \<le> 0
        then \<lparr>dd_assets = assets, actualWithdrawal = 0, shortage = needed,
              dd_depletionAge = (if notSet dAge then Some cAge else dAge)\<rparr>
        else \<lparr>dd_assets = assets, actualWithdrawal = 0, shortage = 0,
              dd_depletionAge = dAge\<rparr>)"

text \<open>The variables the loop carries from one year to the next.\<close>

record SimState =
  currentAssets :: "Asset list"
  st_portfolioBalance :: real
  st_depletionAge :: "int option"
  st_data :: "YearData list"

definition drawdownOf ::
  "FinancialSettings \<Rightarrow> IncomeStream list \<Rightarrow> nat \<Rightarrow> SimState \<Rightarrow> Drawdown" where
  "drawdownOf settings incomeStreams i st =
     executeWithdrawal (ageOf settings i) (withdrawalNeeded settings incomeStreams i)
       (grownAssets settings i (currentAssets st)) (st_depletionAge st)"

text \<open>Lines 100 to 117: the breakdown's synthetic entries and the year's record.\<close>

definition yearBreakdown :: "(string \<rightharpoonup> int) \<Rightarrow> real \<Rightarrow> real \<Rightarrow> (string \<rightharpoonup> int)" where
  "yearBreakdown incomeEntries withdrawn short =
     (let b = incomeEntries(''Portfolio Withdrawals'' \<mapsto> math_round withdrawn)
      in if short > 0 then b(''Income Shortage'' \<mapsto> math_round short) else b)"

definition yearRecord ::
  "int \<Rightarrow> FinancialSettings \<Rightarrow> IncomeStream list \<Rightarrow> nat \<Rightarrow> SimState \<Rightarrow> YearData" where
  "yearRecord startYear settings incomeStreams i st =
     (let dd = drawdownOf settings incomeStreams i st in
      \<lparr>age = ageOf settings i,
       year = startYear + int i,
       expenses = math_round (requiredAnnualExpense settings i),
       totalIncome = math_round (totalFixedIncome settings incomeStreams i + actualWithdrawal dd),
       portfolioBalance = math_round (totalBalance (dd_assets dd)),
       shortfall = math_round (shortage dd),
       withdrawals = math_round (actualWithdrawal dd),
       breakdown = yearBreakdown (incomeBreakdown settings incomeStreams i)
                     (actualWithdrawal dd) (shortage dd)\<rparr>)"

text \<open>The body of the loop, lines 17 to 118, for the year of index \<open>i\<close>.\<close>

definition simYear ::
  "int \<Rightarrow> FinancialSettings \<Rightarrow> IncomeStream list \<Rightarrow> SimState \<Rightarrow> nat \<Rightarrow> SimState" where
  "simYear startYear settings incomeStreams st i =
     (let dd = drawdownOf settings incomeStreams i st in
      \<lparr>currentAssets = dd_assets dd,
       st_portfolioBalance = totalBalance (dd_assets dd),
       st_depletionAge = dd_depletionAge dd,
       st_data = st_data st @ [yearRecord startYear settings incomeStreams i st]\<rparr>)"

text \<open>Lines 9 to 15: the state before the first year.\<close>

definition initState :: "Asset list \<Rightarrow> SimState" where
  "initState assets =
     (let copies = map copyAsset assets in
      \<lparr>currentAssets = copies, st_portfolioBalance = totalBalance copies,
       st_depletionAge = None, st_data = []\<rparr>)"

text \<open>
  The state after the first \<open>n\<close> iterations of
  \<^verbatim>\<open>for (let i = 0; i < yearsToRun; i++)\<close>.
\<close>

definition stateAfter ::
  "int \<Rightarrow> FinancialSettings \<Rightarrow> Asset list \<Rightarrow> IncomeStream list \<Rightarrow> nat \<Rightarrow> SimState" where
  "stateAfter startYear settings assets incomeStreams n =
     foldl (simYear startYear settings incomeStreams) (initState assets) [0..<n]"

text \<open>
  \<^verbatim>\<open>runSimulation\<close>. The value of \<^verbatim>\<open>new Date().getFullYear()\<close>, read once at line 8, is
  the argument \<open>startYear\<close>. The loop runs for every natural \<open>i\<close> below \<^verbatim>\<open>yearsToRun\<close>,
  that is \<open>nat yearsToRun\<close> times.
\<close>

definition runSimulation ::
  "int \<Rightarrow> FinancialSettings \<Rightarrow> Asset list \<Rightarrow> IncomeStream list \<Rightarrow> SimulationResult" where
  "runSimulation startYear settings assets incomeStreams =
     (let yearsToRun = planningHorizon settings - currentAge settings + 1;
          st = stateAfter startYear settings assets incomeStreams (nat yearsToRun)
      in \<lparr>success = (st_depletionAge st = None),
          depletionAge = st_depletionAge st,
          finalBalance = st_portfolioBalance st,
          data = st_data st\<rparr>)"

text \<open>
  A result whose calendar-year labels are moved by \<open>d\<close> years, every other field kept:
  used to compare two runs that read different calendar years.
\<close>

definition relabelYears :: "int \<Rightarrow> SimulationResult \<Rightarrow> SimulationResult" where
  "relabelYears d r = r\<lparr>data := map (\<lambda>yd. yd\<lparr>year := year yd + d\<rparr>) (data r)\<rparr>"

section \<open>The engine on a store of objects\<close>

text \<open>
  In JavaScript an asset and an income stream are objects, and the arrays passed to
  \<^verbatim>\<open>runSimulation\<close> hold references to them. To speak of what the engine writes, the same
  code is embedded once more over an explicit store: the store lists the objects, a
  reference is a position in the list, and a new object goes to the end of the list. The
  arrays are lists of references; the engine only calls \<^verbatim>\<open>map\<close>, \<^verbatim>\<open>reduce\<close> and
  \<^verbatim>\<open>forEach\<close> on them. The fields of an object are numbers, strings and a flag, so an
  object refers to no other object.
\<close>

record Store =
  assetObjs :: "Asset list"
  streamObjs :: "IncomeStream list"

definition readAssets :: "Store \<Rightarrow> nat list \<Rightarrow> Asset list" where
  "readAssets h refs = map (\<lambda>r. assetObjs h ! r) refs"

definition readStreams :: "Store \<Rightarrow> nat list \<Rightarrow> IncomeStream list" where
  "readStreams h refs = map (\<lambda>r. streamObjs h ! r) refs"

text \<open>\<^verbatim>\<open>{ ...a }\<close> creates an object; the result is the new store and the new reference.\<close>

definition newAsset :: "Store \<Rightarrow> Asset \<Rightarrow> Store \<times> nat" where
  "newAsset h obj = (h\<lparr>assetObjs := assetObjs h @ [obj]\<rparr>, length (assetObjs h))"

text \<open>Line 13: \<^verbatim>\<open>assets.map(a => ({ ...a }))\<close>, one new object for each element.\<close>

definition copyStep :: "Store \<times> nat list \<Rightarrow> nat \<Rightarrow> Store \<times> nat list" where
  "copyStep acc a =
     (let created = newAsset (fst acc) (copyAsset (assetObjs (fst acc) ! a))
      in (fst created, snd acc @ [snd created]))"

definition copyAssets :: "Store \<Rightarrow> nat list \<Rightarrow> Store \<times> nat list" where
  "copyAssets h assets = foldl copyStep (h, []) assets"

text \<open>
  \<^verbatim>\<open>currentAssets.forEach(asset => ...)\<close> with a body that assigns to \<^verbatim>\<open>asset.balance\<close>:
  the object behind each reference is read, changed by \<open>f\<close> and written back, in order.
\<close>

definition writeAsset :: "Store \<Rightarrow> nat \<Rightarrow> Asset \<Rightarrow> Store" where
  "writeAsset h r obj = h\<lparr>assetObjs := (assetObjs h)[r := obj]\<rparr>"

definition forEachAsset :: "(Asset \<Rightarrow> Asset) \<Rightarrow> nat list \<Rightarrow> Store \<Rightarrow> Store" where
  "forEachAsset f refs h = foldl (\<lambda>h' r. writeAsset h' r (f (assetObjs h' ! r))) h refs"

text \<open>Lines 77 to 98 on the store.\<close>

record StoreDrawdown =
  sd_store :: Store
  sd_actualWithdrawal :: real
  sd_shortage :: real
  sd_depletionAge :: "int option"

definition executeWithdrawal_store ::
  "int \<Rightarrow> real \<Rightarrow> nat list \<Rightarrow> int option \<Rightarrow> Store \<Rightarrow> StoreDrawdown" where
  "executeWithdrawal_store cAge needed refs dAge h =
     (let totalAvailable = totalBalance (readAssets h refs) in
      if needed > 0 \<and> totalAvailable > 0 then
        (if totalAvailable \<ge> needed
         then \<lparr>sd_store = forEachAsset (\<lambda>asset. asset\<lparr>balance :=
                   balance asset - needed * (balance asset / totalAvailable)\<rparr>) refs h,
               sd_actualWithdrawal = needed, sd_shortage = 0, sd_depletionAge = dAge\<rparr>
         else \<lparr>sd_store = forEachAsset (\<lambda>asset. asset\<lparr>balance := 0\<rparr>) refs h,
               sd_actualWithdrawal = totalAvailable, sd_shortage = needed - totalAvailable,
               sd_depletionAge = (if notSet dAge then Some cAge else dAge)\<rparr>)
      else if needed > 0 \<and> totalAvailable \<le> 0
        then \<lparr>sd_store = h, sd_actualWithdrawal = 0, sd_shortage = needed,
              sd_depletionAge = (if notSet dAge then Some cAge else dAge)\<rparr>
        else \<lparr>sd_store = h, sd_actualWithdrawal = 0, sd_shortage = 0,
              sd_depletionAge = dAge\<rparr>)"

text \<open>
  The loop's variables, \<^verbatim>\<open>currentAssets\<close> now being the array of references to the
  copies, and the body of the loop.
\<close>

record StoreState =
  store :: Store
  workRefs :: "nat list"
  ss_portfolioBalance :: real
  ss_depletionAge :: "int option"
  ss_data :: "YearData list"

definition simYear_store ::
  "int \<Rightarrow> FinancialSettings \<Rightarrow> nat list \<Rightarrow> StoreState \<Rightarrow> nat \<Rightarrow> StoreState" where
  "simYear_store startYear settings streamRefs st i =
     (let incomeStreams = readStreams (store st) streamRefs;
          grown = forEachAsset (growAsset (isRetired settings i) (inflationMultiplier settings i))
                    (workRefs st) (store st);
          sd = executeWithdrawal_store (ageOf settings i)
                 (withdrawalNeeded settings incomeStreams i) (workRefs st) (ss_depletionAge st) grown;
          total = totalBalance (readAssets (sd_store sd) (workRefs st))
      in \<lparr>store = sd_store sd,
          workRefs = workRefs st,
          ss_portfolioBalance = total,
          ss_depletionAge = sd_depletionAge sd,
          ss_data = ss_data st @
            [\<lparr>age = ageOf settings i,
              year = startYear + int i,
              expenses = math_round (requiredAnnualExpense settings i),
              totalIncome = math_round (totalFixedIncome settings incomeStreams i
                              + sd_actualWithdrawal sd),
              portfolioBalance = math_round total,
              shortfall = math_round (sd_shortage sd),
              withdrawals = math_round (sd_actualWithdrawal sd),
              breakdown = yearBreakdown (incomeBreakdown settings incomeStreams i)
                            (sd_actualWithdrawal sd) (sd_shortage sd)\<rparr>]\<rparr>)"

definition initState_store :: "Store \<Rightarrow> nat list \<Rightarrow> StoreState" where
  "initState_store h assets =
     (let copied = copyAssets h assets in
      \<lparr>store = fst copied, workRefs = snd copied,
       ss_portfolioBalance = totalBalance (readAssets (fst copied) (snd copied)),
       ss_depletionAge = None, ss_data = []\<rparr>)"

definition stateAfter_store ::
  "int \<Rightarrow> FinancialSettings \<Rightarrow> nat list \<Rightarrow> nat list \<Rightarrow> Store \<Rightarrow> nat \<Rightarrow> StoreState" where
  "stateAfter_store startYear settings assets streamRefs h n =
     foldl (simYear_store startYear settings streamRefs) (initState_store h assets) [0..<n]"

text \<open>\<^verbatim>\<open>runSimulation\<close> on the store: the store it leaves and the result it returns.\<close>

definition runSimulation_store ::
  "int \<Rightarrow> FinancialSettings \<Rightarrow> nat list \<Rightarrow> nat list \<Rightarrow> Store \<Rightarrow> Store \<times> SimulationResult" where
  "runSimulation_store startYear settings assets streamRefs h =
     (let yearsToRun = planningHorizon settings - currentAge settings + 1;
          st = stateAfter_store startYear settings assets streamRefs h (nat yearsToRun)
      in (store st,
          \<lparr>success = (ss_depletionAge st = None),
           depletionAge = ss_depletionAge st,
           finalBalance = ss_portfolioBalance st,
           data = ss_data st\<rparr>))"

text \<open>
  The loop's variables as the embedding on values sees them, and the property that the
  working references are distinct objects created after the store \<open>h\<close> was handed in,
  that the objects of \<open>h\<close> are as they were and that the streams are untouched.
\<close>

definition view :: "StoreState \<Rightarrow> SimState" where
  "view st = \<lparr>currentAssets = readAssets (store st) (workRefs st),
     st_portfolioBalance = ss_portfolioBalance st,
     st_depletionAge = ss_depletionAge st,
     st_data = ss_data st\<rparr>"

definition ownsCopies :: "Store \<Rightarrow> StoreState \<Rightarrow> bool" where
  "ownsCopies h st =
     (distinct (workRefs st)
      \<and> (\<forall>r \<in> set (workRefs st). length (assetObjs h) \<le> r \<and> r < length (assetObjs (store st)))
      \<and> take (length (assetObjs h)) (assetObjs (store st)) = assetObjs h
      \<and> streamObjs (store st) = streamObjs h)"

section \<open>Scenarios of the specification\<close>

text \<open>
  Scenario B: one asset of 1000 with no contribution and no return, no income stream,
  ages 65 to 66 with retirement at 65, 200 a month, no inflation.
\<close>

definition scenarioB_settings :: FinancialSettings where
  "scenarioB_settings = \<lparr>currentAge = 65, retirementAge = 65, planningHorizon = 66,
     monthlySpending = 200, inflationRate = 0, preRetirementReturn = 0\<rparr>"

definition scenarioB_assets :: "Asset list" where
  "scenarioB_assets = [\<lparr>a_id = ''1'', a_name = ''Savings'', balance = 1000,
     contribution = 0, returnRate = 0, a_type = SAVINGS\<rparr>]"

text \<open>
  Scenario C: one asset of balance 0 with 10000 a year and 5 percent, ages 60 to 62 with
  retirement at 62, no inflation. The scenario leaves the monthly spending open.
\<close>

definition scenarioC_settings :: "real \<Rightarrow> FinancialSettings" where
  "scenarioC_settings m = \<lparr>currentAge = 60, retirementAge = 62, planningHorizon = 62,
     monthlySpending = m, inflationRate = 0, preRetirementReturn = 0\<rparr>"

definition scenarioC_assets :: "Asset list" where
  "scenarioC_assets = [\<lparr>a_id = ''1'', a_name = ''401k'', balance = 0,
     contribution = 10000, returnRate = 5, a_type = FOUR_01K\<rparr>]"

text \<open>
  Two income streams that share the name Pension, 100 and 200 a month, both paid from 65
  to 95; two streams that carry the name of the synthetic withdrawal entry, the first paid
  from 65 and the second from 70; and one stream that carries the name of the synthetic
  shortage entry.
\<close>

definition pensionStreams :: "IncomeStream list" where
  "pensionStreams = [\<lparr>s_id = ''1'', s_name = ''Pension'', monthlyAmount = 100,
       startAge = 65, endAge = 95, growthRate = 0, isTaxable = True\<rparr>,
     \<lparr>s_id = ''2'', s_name = ''Pension'', monthlyAmount = 200,
       startAge = 65, endAge = 95, growthRate = 0, isTaxable = True\<rparr>]"


definition shortageNamedStream :: "IncomeStream list" where
  "shortageNamedStream = [\<lparr>s_id = ''1'', s_name = ''Income Shortage'', monthlyAmount = 300,
       startAge = 65, endAge = 95, growthRate = 0, isTaxable = True\<rparr>]"

text \<open>
  A plan that starts at age 0, already retired, with 200 a month to spend, two years long;
  it is run with no asset and no income stream.
\<close>

definition zeroAge_settings :: FinancialSettings where
  "zeroAge_settings = \<lparr>currentAge = 0, retirementAge = 0, planningHorizon = 1,
     monthlySpending = 200, inflationRate = 0, preRetirementReturn = 0\<rparr>"


text \<open>
  A store holding the asset of Scenario B and the two Pension streams, as a caller would
  hold them before the call.
\<close>

definition callerStore :: Store where
  "callerStore = \<lparr>assetObjs = scenarioB_assets, streamObjs = pensionStreams\<rparr>"

section \<open>Basic facts about the loop\<close>

lemma stateAfter_0:
  "stateAfter y s a inc 0 = initState a"
  by (simp add: stateAfter_def)

lemma stateAfter_Suc:
  "stateAfter y s a inc (Suc n) = simYear y s inc (stateAfter y s a inc n) n"
  by (simp add: stateAfter_def)

lemma st_data_simYear:
  "st_data (simYear y s inc st i) = st_data st @ [yearRecord y s inc i st]"
  by (simp add: simYear_def Let_def)

lemma length_data_stateAfter:
  "length (st_data (stateAfter y s a inc n)) = n"
  by (induction n) (simp_all add: stateAfter_0 stateAfter_Suc st_data_simYear initState_def Let_def)

lemma data_stateAfter_prefix:
  "n \<le> m \<Longrightarrow> take n (st_data (stateAfter y s a inc m)) = st_data (stateAfter y s a inc n)"
proof (induction m)
  case 0
  then show ?case by (simp add: stateAfter_0 initState_def Let_def)
next
  case (Suc m)
  show ?case
  proof (cases "n = Suc m")
    case True
    then show ?thesis by (simp add: length_data_stateAfter)
  next
    case False
    with Suc.prems have le: "n \<le> m" by simp
    then show ?thesis
      using Suc.IH [OF le] by (simp add: stateAfter_Suc st_data_simYear length_data_stateAfter)
  qed
qed

lemma data_stateAfter_nth:
  assumes "i < n"
  shows "st_data (stateAfter y s a inc n) ! i = yearRecord y s inc i (stateAfter y s a inc i)"
proof -
  have "take (Suc i) (st_data (stateAfter y s a inc n)) = st_data (stateAfter y s a inc (Suc i))"
    using assms by (intro data_stateAfter_prefix) simp
  then have "st_data (stateAfter y s a inc n) ! i = st_data (stateAfter y s a inc (Suc i)) ! i"
    by (metis lessI nth_take)
  also have "\<dots> = yearRecord y s inc i (stateAfter y s a inc i)"
    by (simp add: stateAfter_Suc st_data_simYear nth_append length_data_stateAfter)
  finally show ?thesis .
qed

lemma data_runSimulation:
  "data (runSimulation y s a inc) =
     st_data (stateAfter y s a inc (nat (planningHorizon s - currentAge s + 1)))"
  by (simp add: runSimulation_def Let_def)


lemma totalBalance_sum: "totalBalance xs = sum_list (map balance xs)"
proof -
  have "foldl (\<lambda>sum a. sum + balance a) acc xs = acc + sum_list (map balance xs)" for acc
    by (induction xs arbitrary: acc) simp_all
  then show ?thesis by (simp add: totalBalance_def)
qed

section \<open>The calendar year only labels the records\<close>

lemma drawdownOf_data_irrelevant:
  "drawdownOf s inc i (st\<lparr>st_data := d\<rparr>) = drawdownOf s inc i st"
  by (simp add: drawdownOf_def)

lemma yearRecord_relabel:
  "yearRecord y2 s inc i (st\<lparr>st_data := d\<rparr>)
     = (yearRecord y1 s inc i st)\<lparr>year := year (yearRecord y1 s inc i st) + (y2 - y1)\<rparr>"
  by (simp add: yearRecord_def Let_def drawdownOf_data_irrelevant)

lemma stateAfter_relabel:
  "stateAfter y2 s a inc n
     = (stateAfter y1 s a inc n)\<lparr>st_data :=
          map (\<lambda>yd. yd\<lparr>year := year yd + (y2 - y1)\<rparr>) (st_data (stateAfter y1 s a inc n))\<rparr>"
proof (induction n)
  case 0
  show ?case by (simp add: stateAfter_0 initState_def Let_def)
next
  case (Suc n)
  show ?case
    by (subst stateAfter_Suc, subst Suc.IH)
      (simp add: stateAfter_Suc simYear_def Let_def drawdownOf_data_irrelevant
        yearRecord_relabel [of y2 _ _ _ _ _ y1])
qed

lemma year_yearRecord: "year (yearRecord y s inc i st) = y + int i"
  by (simp add: yearRecord_def Let_def)

section \<open>The depletion age from one year to the next\<close>

lemma depletionAge_step:
  "st_depletionAge (simYear y s inc st i)
     = (if 0 < shortage (drawdownOf s inc i st) \<and> notSet (st_depletionAge st)
        then Some (ageOf s i) else st_depletionAge st)"
  by (simp add: simYear_def drawdownOf_def executeWithdrawal_def Let_def)

lemma depletionAge_nonzero_kept:
  "st_depletionAge st = Some d \<Longrightarrow> d \<noteq> 0 \<Longrightarrow> st_depletionAge (simYear y s inc st i) = Some d"
  by (simp add: depletionAge_step notSet_def)

lemma depletionAge_none_before:
  assumes "\<forall>k < n. shortage (drawdownOf s inc k (stateAfter y s a inc k)) \<le> 0"
  shows "st_depletionAge (stateAfter y s a inc n) = None"
  using assms
proof (induction n)
  case 0
  show ?case by (simp add: stateAfter_0 initState_def Let_def)
next
  case (Suc n)
  then have "st_depletionAge (stateAfter y s a inc n) = None"
    and "\<not> 0 < shortage (drawdownOf s inc n (stateAfter y s a inc n))"
    by (simp_all add: not_less)
  then show ?case by (simp add: stateAfter_Suc depletionAge_step)
qed

lemma depletionAge_kept_later:
  assumes "st_depletionAge (stateAfter y s a inc n) = Some d" "d \<noteq> 0" "n \<le> m"
  shows "st_depletionAge (stateAfter y s a inc m) = Some d"
  using assms(3)
proof (induction m)
  case 0
  with assms(1) show ?case by simp
next
  case (Suc m)
  show ?case
  proof (cases "n = Suc m")
    case True
    with assms(1) show ?thesis by simp
  next
    case False
    with Suc have "st_depletionAge (stateAfter y s a inc m) = Some d" by simp
    then show ?thesis
      using assms(2) by (simp add: stateAfter_Suc depletionAge_nonzero_kept)
  qed
qed

text \<open>
  Away from age 0 the depletion age is the age of the first year with a positive
  shortage, and stays.
\<close>

lemma depletionAge_first_shortage:
  assumes "i < n"
    and "0 < shortage (drawdownOf s inc i (stateAfter y s a inc i))"
    and "\<forall>k < i. shortage (drawdownOf s inc k (stateAfter y s a inc k)) \<le> 0"
    and "ageOf s i \<noteq> 0"
  shows "st_depletionAge (stateAfter y s a inc n) = Some (ageOf s i)"
proof -
  have "st_depletionAge (stateAfter y s a inc i) = None"
    using assms(3) by (rule depletionAge_none_before)
  then have "st_depletionAge (stateAfter y s a inc (Suc i)) = Some (ageOf s i)"
    using assms(2) by (simp add: stateAfter_Suc depletionAge_step notSet_def)
  then show ?thesis
    using assms(1,4) depletionAge_kept_later [of y s a inc "Suc i" "ageOf s i" n] by simp
qed

section \<open>The pass over the income streams\<close>



lemma foldl_streamStep_snd_dom:
  "snd (foldl (streamStep c i) acc xs) n \<noteq> None
     \<longleftrightarrow> snd acc n \<noteq> None \<or> (\<exists>stream \<in> set xs. isActive c stream \<and> s_name stream = n)"
  by (induction xs arbitrary: acc) (auto simp: streamStep_def)



lemma yearBreakdown_withdrawals:
  "yearBreakdown b w sh ''Portfolio Withdrawals'' = Some (math_round w)"
  by (simp add: yearBreakdown_def Let_def)

lemma yearBreakdown_shortage:
  "yearBreakdown b w sh ''Income Shortage''
     = (if sh > 0 then Some (math_round sh) else b ''Income Shortage'')"
  by (simp add: yearBreakdown_def Let_def)

lemma breakdown_yearRecord:
  "breakdown (yearRecord y s inc i st)
     = yearBreakdown (incomeBreakdown s inc i) (actualWithdrawal (drawdownOf s inc i st))
         (shortage (drawdownOf s inc i st))"
  by (simp add: yearRecord_def Let_def)

section \<open>The store: what is read and what is written\<close>

lemma copyAssets_eq:
  "\<forall>a \<in> set assets. a < length (assetObjs h) \<Longrightarrow>
   copyAssets h assets
     = (h\<lparr>assetObjs := assetObjs h @ map (\<lambda>a. copyAsset (assetObjs h ! a)) assets\<rparr>,
        [length (assetObjs h) ..< length (assetObjs h) + length assets])"
proof (induction assets rule: rev_induct)
  case Nil
  show ?case by (simp add: copyAssets_def)
next
  case (snoc a assets)
  have a: "a < length (assetObjs h)" using snoc.prems by simp
  have "copyAssets h (assets @ [a]) = copyStep (copyAssets h assets) a"
    by (simp add: copyAssets_def)
  also have "\<dots> = copyStep (h\<lparr>assetObjs := assetObjs h @ map (\<lambda>a. copyAsset (assetObjs h ! a)) assets\<rparr>,
        [length (assetObjs h) ..< length (assetObjs h) + length assets]) a"
    using snoc by simp
  also have "\<dots> = (h\<lparr>assetObjs := assetObjs h @ map (\<lambda>a. copyAsset (assetObjs h ! a)) (assets @ [a])\<rparr>,
        [length (assetObjs h) ..< length (assetObjs h) + length (assets @ [a])])"
    using a by (simp add: copyStep_def newAsset_def Let_def nth_append)
  finally show ?case .
qed

lemma forEachAsset_Nil: "forEachAsset f [] h = h"
  by (simp add: forEachAsset_def)

lemma forEachAsset_Cons:
  "forEachAsset f (r # rs) h = forEachAsset f rs (writeAsset h r (f (assetObjs h ! r)))"
  by (simp add: forEachAsset_def)

lemma forEachAsset_streams: "streamObjs (forEachAsset f refs h) = streamObjs h"
  by (induction refs arbitrary: h) (simp_all add: forEachAsset_Nil forEachAsset_Cons writeAsset_def)

lemma forEachAsset_length: "length (assetObjs (forEachAsset f refs h)) = length (assetObjs h)"
  by (induction refs arbitrary: h) (simp_all add: forEachAsset_Nil forEachAsset_Cons writeAsset_def)

lemma forEachAsset_frame:
  "a \<notin> set refs \<Longrightarrow> assetObjs (forEachAsset f refs h) ! a = assetObjs h ! a"
  by (induction refs arbitrary: h) (auto simp: forEachAsset_Nil forEachAsset_Cons writeAsset_def)

lemma readAssets_write_other:
  assumes "r \<notin> set rs"
  shows "readAssets (writeAsset h r obj) rs = readAssets h rs"
proof -
  have "r \<noteq> x" if "x \<in> set rs" for x
    using that assms by auto
  then show ?thesis
    by (simp add: readAssets_def writeAsset_def)
qed

lemma forEachAsset_read:
  "distinct refs \<Longrightarrow> \<forall>r \<in> set refs. r < length (assetObjs h)
   \<Longrightarrow> readAssets (forEachAsset f refs h) refs = map f (readAssets h refs)"
proof (induction refs arbitrary: h)
  case Nil
  then show ?case by (simp add: readAssets_def)
next
  case (Cons r rs)
  let ?h1 = "writeAsset h r (f (assetObjs h ! r))"
  have r: "r < length (assetObjs h)" "r \<notin> set rs" "distinct rs"
    using Cons.prems by simp_all
  have rs: "\<forall>x \<in> set rs. x < length (assetObjs ?h1)"
    using Cons.prems by (simp add: writeAsset_def)
  have head: "assetObjs (forEachAsset f rs ?h1) ! r = f (assetObjs h ! r)"
    using r by (simp add: forEachAsset_frame writeAsset_def)
  have tail: "readAssets (forEachAsset f rs ?h1) rs = map f (readAssets h rs)"
    using Cons.IH [OF r(3) rs] r(2) by (simp add: readAssets_write_other)
  have "readAssets (forEachAsset f (r # rs) h) (r # rs)
      = assetObjs (forEachAsset f rs ?h1) ! r # readAssets (forEachAsset f rs ?h1) rs"
    by (simp add: forEachAsset_Cons readAssets_def)
  then show ?case
    by (simp add: head tail) (simp add: readAssets_def)
qed

lemma forEachAsset_take:
  "\<forall>r \<in> set refs. n \<le> r \<Longrightarrow> take n (assetObjs (forEachAsset f refs h)) = take n (assetObjs h)"
  by (induction refs arbitrary: h) (simp_all add: forEachAsset_Nil forEachAsset_Cons writeAsset_def)

lemma executeWithdrawal_store_frame:
  "streamObjs (sd_store (executeWithdrawal_store c needed refs d h)) = streamObjs h
   \<and> length (assetObjs (sd_store (executeWithdrawal_store c needed refs d h))) = length (assetObjs h)
   \<and> ((\<forall>r \<in> set refs. n \<le> r) \<longrightarrow>
        take n (assetObjs (sd_store (executeWithdrawal_store c needed refs d h))) = take n (assetObjs h))"
  by (simp add: executeWithdrawal_store_def Let_def forEachAsset_streams forEachAsset_length
      forEachAsset_take)

lemma executeWithdrawal_store_view:
  assumes "distinct refs" "\<forall>r \<in> set refs. r < length (assetObjs h)"
  shows "readAssets (sd_store (executeWithdrawal_store c needed refs d h)) refs
           = dd_assets (executeWithdrawal c needed (readAssets h refs) d)"
    and "sd_actualWithdrawal (executeWithdrawal_store c needed refs d h)
           = actualWithdrawal (executeWithdrawal c needed (readAssets h refs) d)"
    and "sd_shortage (executeWithdrawal_store c needed refs d h)
           = shortage (executeWithdrawal c needed (readAssets h refs) d)"
    and "sd_depletionAge (executeWithdrawal_store c needed refs d h)
           = dd_depletionAge (executeWithdrawal c needed (readAssets h refs) d)"
  using assms
  by (simp_all add: executeWithdrawal_store_def executeWithdrawal_def Let_def forEachAsset_read)

lemma read_fresh:
  "map (\<lambda>r. (xs @ ys) ! r) [length xs ..< length xs + length ys] = ys"
  by (rule nth_equalityI) (simp_all add: nth_append)

lemma initState_store_view:
  assumes "\<forall>a \<in> set assets. a < length (assetObjs h)"
  shows "view (initState_store h assets) = initState (readAssets h assets)"
    and "ownsCopies h (initState_store h assets)"
    and "workRefs (initState_store h assets)
           = [length (assetObjs h) ..< length (assetObjs h) + length assets]"
proof -
  have copies: "readAssets (fst (copyAssets h assets)) (snd (copyAssets h assets))
      = map copyAsset (readAssets h assets)"
    using read_fresh [of "assetObjs h" "map (\<lambda>a. copyAsset (assetObjs h ! a)) assets"]
    by (simp add: copyAssets_eq [OF assms] readAssets_def comp_def)
  show "view (initState_store h assets) = initState (readAssets h assets)"
    by (simp add: view_def initState_store_def initState_def Let_def copies)
  show "ownsCopies h (initState_store h assets)"
    by (simp add: ownsCopies_def initState_store_def Let_def copyAssets_eq [OF assms])
  show "workRefs (initState_store h assets)
           = [length (assetObjs h) ..< length (assetObjs h) + length assets]"
    by (simp add: initState_store_def Let_def copyAssets_eq [OF assms])
qed

lemma simYear_store_view:
  assumes inv: "ownsCopies h st"
  shows "view (simYear_store y s sr st i) = simYear y s (readStreams h sr) (view st) i"
    and "ownsCopies h (simYear_store y s sr st i)"
    and "workRefs (simYear_store y s sr st i) = workRefs st"
proof -
  let ?refs = "workRefs st"
  let ?grown = "forEachAsset (growAsset (isRetired s i) (inflationMultiplier s i)) ?refs (store st)"
  let ?needed = "withdrawalNeeded s (readStreams h sr) i"
  let ?sd = "executeWithdrawal_store (ageOf s i) ?needed ?refs (ss_depletionAge st) ?grown"
  from inv have d: "distinct ?refs"
    and lt: "\<forall>r \<in> set ?refs. r < length (assetObjs (store st))"
    and ge: "\<forall>r \<in> set ?refs. length (assetObjs h) \<le> r"
    and tk: "take (length (assetObjs h)) (assetObjs (store st)) = assetObjs h"
    and str: "streamObjs (store st) = streamObjs h"
    by (simp_all add: ownsCopies_def)
  have streams: "readStreams (store st) sr = readStreams h sr"
    by (simp add: readStreams_def str)
  have grown: "readAssets ?grown ?refs = grownAssets s i (readAssets (store st) ?refs)"
    using d lt by (simp add: forEachAsset_read grownAssets_def)
  have lt': "\<forall>r \<in> set ?refs. r < length (assetObjs ?grown)"
    using lt by (simp add: forEachAsset_length)
  note ex = executeWithdrawal_store_view [OF d lt', of "ageOf s i" ?needed "ss_depletionAge st"]
  note fr = executeWithdrawal_store_frame [of "ageOf s i" ?needed ?refs "ss_depletionAge st" ?grown
      "length (assetObjs h)"]
  show "view (simYear_store y s sr st i) = simYear y s (readStreams h sr) (view st) i"
    by (simp add: view_def simYear_store_def simYear_def yearRecord_def drawdownOf_def Let_def
        streams ex grown)
  show "ownsCopies h (simYear_store y s sr st i)"
    using d lt ge fr
    by (simp add: ownsCopies_def simYear_store_def Let_def streams forEachAsset_length
        forEachAsset_streams forEachAsset_take tk str)
  show "workRefs (simYear_store y s sr st i) = workRefs st"
    by (simp add: simYear_store_def Let_def)
qed

lemma stateAfter_store_view:
  assumes "\<forall>a \<in> set assets. a < length (assetObjs h)"
  shows "view (stateAfter_store y s assets sr h n)
           = stateAfter y s (readAssets h assets) (readStreams h sr) n
         \<and> ownsCopies h (stateAfter_store y s assets sr h n)
         \<and> workRefs (stateAfter_store y s assets sr h n) = workRefs (initState_store h assets)"
proof (induction n)
  case 0
  show ?case
    using initState_store_view [OF assms]
    by (simp add: stateAfter_store_def stateAfter_0)
next
  case (Suc n)
  then show ?case
    using simYear_store_view [of h "stateAfter_store y s assets sr h n" y s sr n]
    by (simp add: stateAfter_store_def stateAfter_Suc)
qed

section \<open>Evaluation\<close>

lemmas engine_defs =
  runSimulation_def stateAfter_def simYear_def yearRecord_def yearBreakdown_def drawdownOf_def
  executeWithdrawal_def notSet_def withdrawalNeeded_def grownAssets_def growAsset_def
  totalFixedIncome_def incomeBreakdown_def processIncome_def streamStep_def annualAmount_def
  isActive_def requiredAnnualExpense_def inflationMultiplier_def isRetired_def ageOf_def
  initState_def copyAsset_def totalBalance_def math_round_def

lemma upt_0_2: "[0..<2] = [0, Suc 0]"
  by (simp add: numeral_2_eq_2)

lemma upt_0_3: "[0..<3] = [0, Suc 0, 2]"
  by (simp add: numeral_3_eq_3 numeral_2_eq_2)

section \<open>Properties of the engine\<close>



text \<open>
  C1. In a year whose withdrawal need is positive (so a retired year) and whose assets,
  after growth, total more than zero and less than the need: the amount withdrawn is that
  total, every asset's balance becomes zero, the shortage is the need minus the total, and
  the depletion age becomes the current age when it was null (the test is
  \<^verbatim>\<open>!depletionAge\<close>, stated here as it is). For Scenario B the first year withdraws 1000
  with shortfall 1400 and depletion age 65; the second withdraws 0 with shortfall 2400 and
  balance 0; the run is not a success.
\<close>

theorem C1_drained_year:
  "(0 < withdrawalNeeded s inc i
      \<and> 0 < totalBalance (grownAssets s i (currentAssets st))
      \<and> totalBalance (grownAssets s i (currentAssets st)) < withdrawalNeeded s inc i
    \<longrightarrow> isRetired s i
      \<and> actualWithdrawal (drawdownOf s inc i st) = totalBalance (grownAssets s i (currentAssets st))
      \<and> length (currentAssets (simYear y s inc st i)) = length (currentAssets st)
      \<and> (\<forall>asset \<in> set (currentAssets (simYear y s inc st i)). balance asset = 0)
      \<and> st_portfolioBalance (simYear y s inc st i) = 0
      \<and> shortage (drawdownOf s inc i st)
          = withdrawalNeeded s inc i - totalBalance (grownAssets s i (currentAssets st))
      \<and> withdrawals (yearRecord y s inc i st)
          = math_round (totalBalance (grownAssets s i (currentAssets st)))
      \<and> shortfall (yearRecord y s inc i st)
          = math_round (withdrawalNeeded s inc i - totalBalance (grownAssets s i (currentAssets st)))
      \<and> st_depletionAge (simYear y s inc st i)
          = (if notSet (st_depletionAge st) then Some (ageOf s i) else st_depletionAge st)
      \<and> (st_depletionAge st = None \<longrightarrow> st_depletionAge (simYear y s inc st i) = Some (ageOf s i)))
   \<and> length (data (runSimulation y scenarioB_settings scenarioB_assets [])) = 2
   \<and> withdrawals (data (runSimulation y scenarioB_settings scenarioB_assets []) ! 0) = 1000
   \<and> shortfall (data (runSimulation y scenarioB_settings scenarioB_assets []) ! 0) = 1400
   \<and> st_depletionAge (stateAfter y scenarioB_settings scenarioB_assets [] 1) = Some 65
   \<and> withdrawals (data (runSimulation y scenarioB_settings scenarioB_assets []) ! 1) = 0
   \<and> shortfall (data (runSimulation y scenarioB_settings scenarioB_assets []) ! 1) = 2400
   \<and> portfolioBalance (data (runSimulation y scenarioB_settings scenarioB_assets []) ! 1) = 0
   \<and> finalBalance (runSimulation y scenarioB_settings scenarioB_assets []) = 0
   \<and> depletionAge (runSimulation y scenarioB_settings scenarioB_assets []) = Some 65
   \<and> success (runSimulation y scenarioB_settings scenarioB_assets []) = False"
proof -
  let ?ta = "totalBalance (grownAssets s i (currentAssets st))"
  let ?wn = "withdrawalNeeded s inc i"
  have general: "isRetired s i
      \<and> actualWithdrawal (drawdownOf s inc i st) = ?ta
      \<and> length (currentAssets (simYear y s inc st i)) = length (currentAssets st)
      \<and> (\<forall>asset \<in> set (currentAssets (simYear y s inc st i)). balance asset = 0)
      \<and> st_portfolioBalance (simYear y s inc st i) = 0
      \<and> shortage (drawdownOf s inc i st) = ?wn - ?ta
      \<and> withdrawals (yearRecord y s inc i st) = math_round ?ta
      \<and> shortfall (yearRecord y s inc i st) = math_round (?wn - ?ta)
      \<and> st_depletionAge (simYear y s inc st i)
          = (if notSet (st_depletionAge st) then Some (ageOf s i) else st_depletionAge st)
      \<and> (st_depletionAge st = None \<longrightarrow> st_depletionAge (simYear y s inc st i) = Some (ageOf s i))"
    if h: "0 < ?wn" "0 < ?ta" "?ta < ?wn"
  proof -
    have ret: "isRetired s i"
      using h(1) by (auto simp: withdrawalNeeded_def split: if_splits)
    have dd: "drawdownOf s inc i st =
        \<lparr>dd_assets = map (\<lambda>asset. asset\<lparr>balance := 0\<rparr>) (grownAssets s i (currentAssets st)),
         actualWithdrawal = ?ta, shortage = ?wn - ?ta,
         dd_depletionAge = (if notSet (st_depletionAge st) then Some (ageOf s i)
                            else st_depletionAge st)\<rparr>"
      using h by (simp add: drawdownOf_def executeWithdrawal_def Let_def)
    have zero: "totalBalance (map (\<lambda>asset. asset\<lparr>balance := 0\<rparr>) xs) = 0" for xs :: "Asset list"
      by (induction xs) (simp_all add: totalBalance_sum)
    have len: "length (grownAssets s i (currentAssets st)) = length (currentAssets st)"
      by (simp add: grownAssets_def)
    show ?thesis
      using ret by (simp add: dd simYear_def yearRecord_def Let_def zero len notSet_def)
  qed
  have scenario:
    "length (data (runSimulation y scenarioB_settings scenarioB_assets [])) = 2
     \<and> withdrawals (data (runSimulation y scenarioB_settings scenarioB_assets []) ! 0) = 1000
     \<and> shortfall (data (runSimulation y scenarioB_settings scenarioB_assets []) ! 0) = 1400
     \<and> st_depletionAge (stateAfter y scenarioB_settings scenarioB_assets [] 1) = Some 65
     \<and> withdrawals (data (runSimulation y scenarioB_settings scenarioB_assets []) ! 1) = 0
     \<and> shortfall (data (runSimulation y scenarioB_settings scenarioB_assets []) ! 1) = 2400
     \<and> portfolioBalance (data (runSimulation y scenarioB_settings scenarioB_assets []) ! 1) = 0
     \<and> finalBalance (runSimulation y scenarioB_settings scenarioB_assets []) = 0
     \<and> depletionAge (runSimulation y scenarioB_settings scenarioB_assets []) = Some 65
     \<and> success (runSimulation y scenarioB_settings scenarioB_assets []) = False"
    by (simp add: engine_defs scenarioB_settings_def scenarioB_assets_def upt_0_2 Let_def)
  from general scenario show ?thesis by blast
qed

theorem C1_drained_year_witness:
  "actualWithdrawal (drawdownOf scenarioB_settings [] 0 (initState scenarioB_assets)) = 1000
   \<and> shortage (drawdownOf scenarioB_settings [] 0 (initState scenarioB_assets)) = 1400
   \<and> map balance (currentAssets (simYear 2026 scenarioB_settings [] (initState scenarioB_assets) 0)) = [0]
   \<and> st_depletionAge (simYear 2026 scenarioB_settings [] (initState scenarioB_assets) 0) = Some 65"
proof -
  have wn: "withdrawalNeeded scenarioB_settings [] 0 = 2400"
    by (simp add: engine_defs scenarioB_settings_def)
  have ta: "totalBalance (grownAssets scenarioB_settings 0 (currentAssets (initState scenarioB_assets))) = 1000"
    by (simp add: engine_defs scenarioB_settings_def scenarioB_assets_def)
  have len: "length (currentAssets (initState scenarioB_assets)) = 1"
    by (simp add: initState_def scenarioB_assets_def Let_def)
  have dep: "st_depletionAge (initState scenarioB_assets) = None"
    by (simp add: initState_def Let_def)
  have age: "ageOf scenarioB_settings 0 = 65"
    by (simp add: ageOf_def scenarioB_settings_def)
  note inst = C1_drained_year [where s = scenarioB_settings and inc = "[]" and i = 0
    and st = "initState scenarioB_assets" and y = 2026]
  from inst have w: "actualWithdrawal (drawdownOf scenarioB_settings [] 0 (initState scenarioB_assets)) = 1000"
    and sh: "shortage (drawdownOf scenarioB_settings [] 0 (initState scenarioB_assets)) = 1400"
    and d: "st_depletionAge (simYear 2026 scenarioB_settings [] (initState scenarioB_assets) 0) = Some 65"
    and l: "length (currentAssets (simYear 2026 scenarioB_settings [] (initState scenarioB_assets) 0)) = 1"
    and z: "\<forall>asset \<in> set (currentAssets (simYear 2026 scenarioB_settings [] (initState scenarioB_assets) 0)).
              balance asset = 0"
    by (simp_all add: wn ta len dep age notSet_def)
  from l z have "map balance (currentAssets (simYear 2026 scenarioB_settings [] (initState scenarioB_assets) 0)) = [0]"
    by (cases "currentAssets (simYear 2026 scenarioB_settings [] (initState scenarioB_assets) 0)") simp_all
  with w sh d show ?thesis by simp
qed



text \<open>
  C5. In the year of index \<open>i\<close> every asset first gains \<open>balance * (returnRate / 100)\<close>,
  computed on the balance it had when the year began; then, exactly when the age of the
  year is below \<open>retirementAge\<close>, it gains \<open>contribution * inflationMultiplier\<close>; in a
  retired year nothing but the growth is added; no other field changes. For Scenario C
  the balance is 10000 after the first year and 20500 after the second, whatever the
  monthly spending and the income streams.
\<close>

theorem C5_growth_then_contribution:
  "length (grownAssets s i assets) = length assets
   \<and> (\<forall>j < length assets.
        grownAssets s i assets ! j
          = (assets ! j)\<lparr>balance :=
              (balance (assets ! j) + balance (assets ! j) * (returnRate (assets ! j) / 100))
              + (if ageOf s i < retirementAge s
                 then contribution (assets ! j) * inflationMultiplier s i else 0)\<rparr>)
   \<and> (ageOf s i \<ge> retirementAge s \<longrightarrow>
        (\<forall>j < length assets.
           balance (grownAssets s i assets ! j)
             = balance (assets ! j) + balance (assets ! j) * (returnRate (assets ! j) / 100)))
   \<and> currentAssets (simYear y s inc st i)
        = dd_assets (executeWithdrawal (ageOf s i) (withdrawalNeeded s inc i)
            (grownAssets s i (currentAssets st)) (st_depletionAge st))
   \<and> map balance (currentAssets (stateAfter y (scenarioC_settings m) scenarioC_assets inc 1))
        = [10000]
   \<and> map balance (currentAssets (stateAfter y (scenarioC_settings m) scenarioC_assets inc 2))
        = [20500]
   \<and> portfolioBalance (data (runSimulation y (scenarioC_settings m) scenarioC_assets inc) ! 0)
        = 10000
   \<and> portfolioBalance (data (runSimulation y (scenarioC_settings m) scenarioC_assets inc) ! 1)
        = 20500"
proof -
  have grow: "growAsset retired infl asset
      = asset\<lparr>balance := (balance asset + balance asset * (returnRate asset / 100))
                 + (if \<not> retired then contribution asset * infl else 0)\<rparr>"
    for retired infl and asset :: Asset
    by (simp add: growAsset_def Let_def)
  have nth: "grownAssets s i assets ! j
      = (assets ! j)\<lparr>balance :=
          (balance (assets ! j) + balance (assets ! j) * (returnRate (assets ! j) / 100))
          + (if ageOf s i < retirementAge s
             then contribution (assets ! j) * inflationMultiplier s i else 0)\<rparr>"
    if "j < length assets" for j
    using that by (simp add: grownAssets_def grow isRetired_def not_le)
  have retired: "balance (grownAssets s i assets ! j)
      = balance (assets ! j) + balance (assets ! j) * (returnRate (assets ! j) / 100)"
    if "ageOf s i \<ge> retirementAge s" "j < length assets" for j
    using that by (simp add: nth)
  have any_step: "currentAssets (simYear y s' inc st' k)
      = dd_assets (executeWithdrawal (ageOf s' k) (withdrawalNeeded s' inc k)
          (grownAssets s' k (currentAssets st')) (st_depletionAge st'))" for s' st' k
    by (simp add: simYear_def drawdownOf_def Let_def)
  have step: "currentAssets (simYear y s inc st i)
      = dd_assets (executeWithdrawal (ageOf s i) (withdrawalNeeded s inc i)
          (grownAssets s i (currentAssets st)) (st_depletionAge st))"
    by (rule any_step)
  have wn0: "withdrawalNeeded (scenarioC_settings m) inc 0 = 0"
    and wn1: "withdrawalNeeded (scenarioC_settings m) inc (Suc 0) = 0"
    by (simp_all add: withdrawalNeeded_def isRetired_def ageOf_def scenarioC_settings_def)
  have ex0: "executeWithdrawal cAge 0 xs d
      = \<lparr>dd_assets = xs, actualWithdrawal = 0, shortage = 0, dd_depletionAge = d\<rparr>" for cAge xs d
    by (simp add: executeWithdrawal_def Let_def)
  have g0: "grownAssets (scenarioC_settings m) 0 (map copyAsset scenarioC_assets)
      = [\<lparr>a_id = ''1'', a_name = ''401k'', balance = 10000,
          contribution = 10000, returnRate = 5, a_type = FOUR_01K\<rparr>]"
    by (simp add: grownAssets_def growAsset_def isRetired_def ageOf_def inflationMultiplier_def
        scenarioC_settings_def scenarioC_assets_def copyAsset_def Let_def)
  have st1: "currentAssets (stateAfter y (scenarioC_settings m) scenarioC_assets inc (Suc 0))
      = [\<lparr>a_id = ''1'', a_name = ''401k'', balance = 10000,
          contribution = 10000, returnRate = 5, a_type = FOUR_01K\<rparr>]"
    by (simp add: stateAfter_Suc stateAfter_0 any_step initState_def Let_def wn0 ex0 g0)
  have g1: "grownAssets (scenarioC_settings m) (Suc 0)
        [\<lparr>a_id = ''1'', a_name = ''401k'', balance = 10000,
          contribution = 10000, returnRate = 5, a_type = FOUR_01K\<rparr>]
      = [\<lparr>a_id = ''1'', a_name = ''401k'', balance = 20500,
          contribution = 10000, returnRate = 5, a_type = FOUR_01K\<rparr>]"
    by (simp add: grownAssets_def growAsset_def isRetired_def ageOf_def inflationMultiplier_def
        scenarioC_settings_def Let_def)
  have st2: "currentAssets (stateAfter y (scenarioC_settings m) scenarioC_assets inc (Suc (Suc 0)))
      = [\<lparr>a_id = ''1'', a_name = ''401k'', balance = 20500,
          contribution = 10000, returnRate = 5, a_type = FOUR_01K\<rparr>]"
    by (simp add: stateAfter_Suc [of _ _ _ _ "Suc 0"] any_step st1 wn1 ex0 g1)
  have three: "nat (planningHorizon (scenarioC_settings m) - currentAge (scenarioC_settings m) + 1) = 3"
    by (simp add: scenarioC_settings_def)
  have pb: "portfolioBalance (yearRecord y s' inc k st')
      = math_round (totalBalance (currentAssets (simYear y s' inc st' k)))" for s' st' k
    by (simp add: yearRecord_def simYear_def Let_def)
  have d0: "portfolioBalance (data (runSimulation y (scenarioC_settings m) scenarioC_assets inc) ! 0)
      = 10000"
    using st1
    by (simp add: data_runSimulation three data_stateAfter_nth pb
        flip: stateAfter_Suc) (simp add: totalBalance_def math_round_def)
  have d1: "portfolioBalance (data (runSimulation y (scenarioC_settings m) scenarioC_assets inc) ! 1)
      = 20500"
    using st2
    by (simp add: data_runSimulation three data_stateAfter_nth pb
        flip: stateAfter_Suc) (simp add: totalBalance_def math_round_def)
  from nth retired step st1 st2 d0 d1 show ?thesis
    by (simp add: grownAssets_def numeral_2_eq_2)
qed

theorem C5_growth_then_contribution_witness:
  "balance (grownAssets (scenarioC_settings 0) 0 scenarioC_assets ! 0) = 10000
   \<and> balance (grownAssets (scenarioC_settings 0) 2
        [\<lparr>a_id = ''1'', a_name = ''401k'', balance = 20500,
          contribution = 10000, returnRate = 5, a_type = FOUR_01K\<rparr>] ! 0) = 21525
   \<and> map balance (currentAssets (stateAfter 2026 (scenarioC_settings 0) scenarioC_assets [] 2))
        = [20500]"
proof -
  let ?a = "\<lparr>a_id = ''1'', a_name = ''401k'', balance = 20500,
          contribution = 10000, returnRate = 5, a_type = FOUR_01K\<rparr>"
  have age0: "ageOf (scenarioC_settings 0) 0 < retirementAge (scenarioC_settings 0)"
    by (simp add: ageOf_def scenarioC_settings_def)
  have age2: "ageOf (scenarioC_settings 0) 2 \<ge> retirementAge (scenarioC_settings 0)"
    by (simp add: ageOf_def scenarioC_settings_def)
  have infl: "inflationMultiplier (scenarioC_settings 0) 0 = 1"
    by (simp add: inflationMultiplier_def)
  from C5_growth_then_contribution [where s = "scenarioC_settings 0" and i = 0
      and assets = scenarioC_assets and y = 2026 and m = 0 and inc = "[]"]
  have first: "\<forall>j < length scenarioC_assets.
      grownAssets (scenarioC_settings 0) 0 scenarioC_assets ! j
        = (scenarioC_assets ! j)\<lparr>balance :=
            (balance (scenarioC_assets ! j)
              + balance (scenarioC_assets ! j) * (returnRate (scenarioC_assets ! j) / 100))
            + contribution (scenarioC_assets ! j) * 1\<rparr>"
    and run: "map balance (currentAssets (stateAfter 2026 (scenarioC_settings 0) scenarioC_assets [] 2))
        = [20500]"
    using age0 by (simp_all add: infl)
  from first [rule_format, of 0]
  have b0: "balance (grownAssets (scenarioC_settings 0) 0 scenarioC_assets ! 0) = 10000"
    by (simp add: scenarioC_assets_def)
  from C5_growth_then_contribution [where s = "scenarioC_settings 0" and i = 2
      and assets = "[?a]" and y = 2026 and m = 0 and inc = "[]"]
  have "\<forall>j < length [?a]. balance (grownAssets (scenarioC_settings 0) 2 [?a] ! j)
      = balance ([?a] ! j) + balance ([?a] ! j) * (returnRate ([?a] ! j) / 100)"
    using age2 by simp
  from this [rule_format, of 0]
  have b2: "balance (grownAssets (scenarioC_settings 0) 2 [?a] ! 0) = 21525"
    by simp
  from b0 b2 run show ?thesis by simp
qed




text \<open>
  C10. With the two Pension streams, both active at 65: the breakdown of the year holds
  2400 under Pension, the rounded amount of the stream listed later, and 0 under Portfolio
  Withdrawals, and nothing else, so its entries add up to 2400; the fixed income is
  1200 + 2400 = 3600 and the year's total income is 3600, more than the breakdown shows.
\<close>

theorem C10_same_name_overwrites:
  "s_name (pensionStreams ! 0) = s_name (pensionStreams ! 1)
   \<and> isActive (ageOf scenarioB_settings 0) (pensionStreams ! 0)
   \<and> isActive (ageOf scenarioB_settings 0) (pensionStreams ! 1)
   \<and> annualAmount 0 (pensionStreams ! 0) = 1200
   \<and> annualAmount 0 (pensionStreams ! 1) = 2400
   \<and> breakdown (data (runSimulation y scenarioB_settings scenarioB_assets pensionStreams) ! 0)
        = [''Pension'' \<mapsto> 2400, ''Portfolio Withdrawals'' \<mapsto> 0]
   \<and> (\<Sum>n \<in> dom (breakdown
              (data (runSimulation y scenarioB_settings scenarioB_assets pensionStreams) ! 0)).
          the (breakdown
              (data (runSimulation y scenarioB_settings scenarioB_assets pensionStreams) ! 0) n))
        = 2400
   \<and> totalFixedIncome scenarioB_settings pensionStreams 0 = 3600
   \<and> totalIncome (data (runSimulation y scenarioB_settings scenarioB_assets pensionStreams) ! 0)
        = 3600"
proof -
  have streams: "s_name (pensionStreams ! 0) = s_name (pensionStreams ! 1)
     \<and> isActive (ageOf scenarioB_settings 0) (pensionStreams ! 0)
     \<and> isActive (ageOf scenarioB_settings 0) (pensionStreams ! 1)
     \<and> annualAmount 0 (pensionStreams ! 0) = 1200
     \<and> annualAmount 0 (pensionStreams ! 1) = 2400"
    by (simp add: isActive_def ageOf_def annualAmount_def scenarioB_settings_def pensionStreams_def)
  have entries:
    "breakdown (data (runSimulation y scenarioB_settings scenarioB_assets pensionStreams) ! 0)
        = [''Pension'' \<mapsto> 2400, ''Portfolio Withdrawals'' \<mapsto> 0]"
    by (simp add: engine_defs scenarioB_settings_def scenarioB_assets_def pensionStreams_def
        upt_0_2 Let_def)
  have total:
    "(\<Sum>n \<in> dom (breakdown
              (data (runSimulation y scenarioB_settings scenarioB_assets pensionStreams) ! 0)).
          the (breakdown
              (data (runSimulation y scenarioB_settings scenarioB_assets pensionStreams) ! 0) n))
        = 2400"
    by (simp add: entries)
  have income: "totalFixedIncome scenarioB_settings pensionStreams 0 = 3600
     \<and> totalIncome (data (runSimulation y scenarioB_settings scenarioB_assets pensionStreams) ! 0)
          = 3600"
    by (simp add: engine_defs scenarioB_settings_def scenarioB_assets_def pensionStreams_def
        upt_0_2 Let_def)
  from streams entries total income show ?thesis by blast
qed

text \<open>
  C7, as the code has it. Every year's breakdown has the entry Portfolio Withdrawals, equal
  to the year's rounded withdrawal; it has the entry Income Shortage exactly when the
  year's shortage was positive or an income stream active that year is itself named
  Income Shortage.
\<close>

theorem C7_breakdown_keys_amended:
  "\<forall>i < length (data (runSimulation y s a inc)).
     breakdown (data (runSimulation y s a inc) ! i) ''Portfolio Withdrawals''
       = Some (withdrawals (data (runSimulation y s a inc) ! i))
     \<and> (breakdown (data (runSimulation y s a inc) ! i) ''Income Shortage'' \<noteq> None
          \<longleftrightarrow> 0 < shortage (drawdownOf s inc i (stateAfter y s a inc i))
              \<or> (\<exists>stream \<in> set inc. isActive (ageOf s i) stream
                    \<and> s_name stream = ''Income Shortage''))"
proof (intro allI impI)
  fix i
  assume "i < length (data (runSimulation y s a inc))"
  then have i: "i < nat (planningHorizon s - currentAge s + 1)"
    by (simp add: data_runSimulation length_data_stateAfter)
  let ?st = "stateAfter y s a inc i"
  have rec: "data (runSimulation y s a inc) ! i = yearRecord y s inc i ?st"
    using i by (simp add: data_runSimulation data_stateAfter_nth)
  have w: "withdrawals (yearRecord y s inc i ?st) = math_round (actualWithdrawal (drawdownOf s inc i ?st))"
    by (simp add: yearRecord_def Let_def)
  have dom: "incomeBreakdown s inc i ''Income Shortage'' \<noteq> None
      \<longleftrightarrow> (\<exists>stream \<in> set inc. isActive (ageOf s i) stream \<and> s_name stream = ''Income Shortage'')"
    unfolding incomeBreakdown_def processIncome_def
    by (subst foldl_streamStep_snd_dom) simp
  show "breakdown (data (runSimulation y s a inc) ! i) ''Portfolio Withdrawals''
       = Some (withdrawals (data (runSimulation y s a inc) ! i))
     \<and> (breakdown (data (runSimulation y s a inc) ! i) ''Income Shortage'' \<noteq> None
          \<longleftrightarrow> 0 < shortage (drawdownOf s inc i ?st)
              \<or> (\<exists>stream \<in> set inc. isActive (ageOf s i) stream
                    \<and> s_name stream = ''Income Shortage''))"
    using dom by (simp add: rec w breakdown_yearRecord yearBreakdown_withdrawals yearBreakdown_shortage)
qed

text \<open>
  C7 as stated fails for a stream named Income Shortage: at 65 the stream pays 3600
  against a need of 2400, the year's shortage is 0, and the breakdown still has the entry.
\<close>

theorem C7_shortage_key_counterexample:
  "shortage (drawdownOf scenarioB_settings shortageNamedStream 0
       (stateAfter 2026 scenarioB_settings scenarioB_assets shortageNamedStream 0)) = 0
   \<and> shortfall (data (runSimulation 2026 scenarioB_settings scenarioB_assets shortageNamedStream) ! 0) = 0
   \<and> breakdown (data (runSimulation 2026 scenarioB_settings scenarioB_assets shortageNamedStream) ! 0)
        ''Income Shortage'' = Some 3600"
  by (simp add: engine_defs scenarioB_settings_def scenarioB_assets_def shortageNamedStream_def
      upt_0_2 Let_def)

theorem C7_breakdown_keys_amended_witness:
  "length (data (runSimulation 2026 scenarioB_settings scenarioB_assets [])) = 2
   \<and> breakdown (data (runSimulation 2026 scenarioB_settings scenarioB_assets []) ! 0)
        ''Portfolio Withdrawals'' = Some 1000
   \<and> breakdown (data (runSimulation 2026 scenarioB_settings scenarioB_assets []) ! 0)
        ''Income Shortage'' \<noteq> None"
proof -
  have len: "length (data (runSimulation 2026 scenarioB_settings scenarioB_assets [])) = 2"
    by (simp add: data_runSimulation length_data_stateAfter scenarioB_settings_def)
  have w: "withdrawals (data (runSimulation 2026 scenarioB_settings scenarioB_assets []) ! 0) = 1000"
    by (simp add: engine_defs scenarioB_settings_def scenarioB_assets_def upt_0_2 Let_def)
  have sh: "shortage (drawdownOf scenarioB_settings [] 0
       (stateAfter 2026 scenarioB_settings scenarioB_assets [] 0)) = 1400"
    by (simp add: engine_defs scenarioB_settings_def scenarioB_assets_def Let_def)
  from C7_breakdown_keys_amended [where y = 2026 and s = scenarioB_settings
      and a = scenarioB_assets and inc = "[]", rule_format, of 0]
  have "breakdown (data (runSimulation 2026 scenarioB_settings scenarioB_assets []) ! 0)
        ''Portfolio Withdrawals'' = Some 1000
     \<and> breakdown (data (runSimulation 2026 scenarioB_settings scenarioB_assets []) ! 0)
        ''Income Shortage'' \<noteq> None"
    by (simp add: len w sh)
  with len show ?thesis by simp
qed

text \<open>
  C9, as the code has it. The calendar year read at line 8 reaches the result only
  through the \<open>year\<close> labels: two runs on the same inputs that read the years \<open>y1\<close> and
  \<open>y2\<close> agree on \<open>success\<close>, \<open>depletionAge\<close>, \<open>finalBalance\<close> and on every field of
  every record but \<open>year\<close>, and the record of index \<open>i\<close> is labelled with the year read
  plus \<open>i\<close>. So the two results are identical when the two runs read the same year.
\<close>

theorem C9_year_only_labels_amended:
  "runSimulation y2 s a inc = relabelYears (y2 - y1) (runSimulation y1 s a inc)
   \<and> success (runSimulation y2 s a inc) = success (runSimulation y1 s a inc)
   \<and> depletionAge (runSimulation y2 s a inc) = depletionAge (runSimulation y1 s a inc)
   \<and> finalBalance (runSimulation y2 s a inc) = finalBalance (runSimulation y1 s a inc)
   \<and> length (data (runSimulation y2 s a inc)) = length (data (runSimulation y1 s a inc))
   \<and> (\<forall>i < length (data (runSimulation y1 s a inc)).
        year (data (runSimulation y1 s a inc) ! i) = y1 + int i
        \<and> data (runSimulation y2 s a inc) ! i
            = (data (runSimulation y1 s a inc) ! i)\<lparr>year := y2 + int i\<rparr>)
   \<and> (y1 = y2 \<longrightarrow> runSimulation y2 s a inc = runSimulation y1 s a inc)"
proof -
  let ?n = "nat (planningHorizon s - currentAge s + 1)"
  have rel: "runSimulation y2 s a inc = relabelYears (y2 - y1) (runSimulation y1 s a inc)"
    by (subst runSimulation_def, subst stateAfter_relabel [of y2 _ _ _ _ y1])
      (simp add: runSimulation_def relabelYears_def Let_def)
  have len: "length (data (runSimulation y s a inc)) = ?n" for y
    by (simp add: data_runSimulation length_data_stateAfter)
  have yr: "year (data (runSimulation y s a inc) ! i) = y + int i" if "i < ?n" for y i
    using that by (simp add: data_runSimulation data_stateAfter_nth year_yearRecord)
  have nth: "data (runSimulation y2 s a inc) ! i
      = (data (runSimulation y1 s a inc) ! i)\<lparr>year := y2 + int i\<rparr>" if "i < ?n" for i
  proof -
    have "data (runSimulation y2 s a inc) ! i
        = (data (runSimulation y1 s a inc) ! i)\<lparr>year :=
            year (data (runSimulation y1 s a inc) ! i) + (y2 - y1)\<rparr>"
      using that by (subst rel) (simp add: relabelYears_def len)
    then show ?thesis using that by (simp add: yr)
  qed
  show ?thesis
    using nth yr by (simp add: len) (simp add: rel relabelYears_def)
qed

text \<open>
  C9 as stated fails for the labels: two runs of Scenario B that read the calendar years
  2025 and 2026 return different results.
\<close>

theorem C9_year_labels_counterexample:
  "runSimulation 2025 scenarioB_settings scenarioB_assets []
     \<noteq> runSimulation 2026 scenarioB_settings scenarioB_assets []"
proof
  assume "runSimulation 2025 scenarioB_settings scenarioB_assets []
     = runSimulation 2026 scenarioB_settings scenarioB_assets []"
  then have "year (data (runSimulation 2025 scenarioB_settings scenarioB_assets []) ! 0)
     = year (data (runSimulation 2026 scenarioB_settings scenarioB_assets []) ! 0)"
    by simp
  then show False
    by (simp add: engine_defs scenarioB_settings_def scenarioB_assets_def upt_0_2 Let_def)
qed

theorem C9_year_only_labels_amended_witness:
  "length (data (runSimulation 2025 scenarioB_settings scenarioB_assets [])) = 2
   \<and> year (data (runSimulation 2025 scenarioB_settings scenarioB_assets []) ! 1) = 2026
   \<and> data (runSimulation 2026 scenarioB_settings scenarioB_assets []) ! 1
       = (data (runSimulation 2025 scenarioB_settings scenarioB_assets []) ! 1)\<lparr>year := 2027\<rparr>
   \<and> finalBalance (runSimulation 2026 scenarioB_settings scenarioB_assets [])
       = finalBalance (runSimulation 2025 scenarioB_settings scenarioB_assets [])"
proof -
  have len: "length (data (runSimulation 2025 scenarioB_settings scenarioB_assets [])) = 2"
    by (simp add: data_runSimulation length_data_stateAfter scenarioB_settings_def)
  note inst = C9_year_only_labels_amended [where ?y1.0 = 2025 and ?y2.0 = 2026
    and s = scenarioB_settings and a = scenarioB_assets and inc = "[]"]
  from inst [THEN conjunct2, THEN conjunct2, THEN conjunct2, THEN conjunct2, THEN conjunct2,
      THEN conjunct1]
  have "\<forall>i < 2.
        year (data (runSimulation 2025 scenarioB_settings scenarioB_assets []) ! i) = 2025 + int i
        \<and> data (runSimulation 2026 scenarioB_settings scenarioB_assets []) ! i
            = (data (runSimulation 2025 scenarioB_settings scenarioB_assets []) ! i)\<lparr>year := 2026 + int i\<rparr>"
    by (simp add: len)
  from this [rule_format, of 1]
  have one: "year (data (runSimulation 2025 scenarioB_settings scenarioB_assets []) ! 1) = 2026
     \<and> data (runSimulation 2026 scenarioB_settings scenarioB_assets []) ! 1
       = (data (runSimulation 2025 scenarioB_settings scenarioB_assets []) ! 1)\<lparr>year := 2027\<rparr>"
    by simp
  from inst have fb: "finalBalance (runSimulation 2026 scenarioB_settings scenarioB_assets [])
       = finalBalance (runSimulation 2025 scenarioB_settings scenarioB_assets [])"
    by blast
  from len one fb show ?thesis by simp
qed

text \<open>
  C3 at age 0. The plan starts at age 0 with nothing to draw on: the year of age 0 has a
  shortfall of 2400 and line 97 stores the depletion age 0; in the year of age 1 the test
  \<^verbatim>\<open>!depletionAge\<close> holds of the stored 0, and line 97 stores 1 over it. The result
  reports the depletion age 1, not the age 0 of the first year with a shortfall.
\<close>

theorem C3_depletion_age_zero_overwritten:
  "age (data (runSimulation 2026 zeroAge_settings [] []) ! 0) = 0
   \<and> shortage (drawdownOf zeroAge_settings [] 0 (stateAfter 2026 zeroAge_settings [] [] 0)) = 2400
   \<and> shortfall (data (runSimulation 2026 zeroAge_settings [] []) ! 0) = 2400
   \<and> st_depletionAge (stateAfter 2026 zeroAge_settings [] [] 1) = Some 0
   \<and> age (data (runSimulation 2026 zeroAge_settings [] []) ! 1) = 1
   \<and> shortfall (data (runSimulation 2026 zeroAge_settings [] []) ! 1) = 2400
   \<and> depletionAge (runSimulation 2026 zeroAge_settings [] []) = Some 1
   \<and> success (runSimulation 2026 zeroAge_settings [] []) = False"
  by (simp add: engine_defs zeroAge_settings_def upt_0_2 Let_def)

text \<open>
  C8. The caller holds a store \<open>h\<close> and passes references to assets in it. After the
  call every asset and every stream the caller passed reads as before, in every field;
  more, no object of \<open>h\<close> has changed at all. In every year the working array refers
  only to objects created by line 13, one for each element passed, none of which is an
  object of the caller. The result is the one the embedding on values computes from the
  objects as they were before the call.
\<close>

theorem C8_inputs_not_mutated:
  "(\<forall>a \<in> set assets. a < length (assetObjs h)) \<longrightarrow>
     readAssets (fst (runSimulation_store y s assets sr h)) assets = readAssets h assets
   \<and> readStreams (fst (runSimulation_store y s assets sr h)) sr = readStreams h sr
   \<and> take (length (assetObjs h)) (assetObjs (fst (runSimulation_store y s assets sr h)))
       = assetObjs h
   \<and> streamObjs (fst (runSimulation_store y s assets sr h)) = streamObjs h
   \<and> (\<forall>n. workRefs (stateAfter_store y s assets sr h n)
             = [length (assetObjs h) ..< length (assetObjs h) + length assets]
          \<and> set (workRefs (stateAfter_store y s assets sr h n)) \<inter> set assets = {}
          \<and> take (length (assetObjs h)) (assetObjs (store (stateAfter_store y s assets sr h n)))
              = assetObjs h
          \<and> streamObjs (store (stateAfter_store y s assets sr h n)) = streamObjs h)
   \<and> snd (runSimulation_store y s assets sr h)
       = runSimulation y s (readAssets h assets) (readStreams h sr)"
proof
  assume valid: "\<forall>a \<in> set assets. a < length (assetObjs h)"
  let ?n = "nat (planningHorizon s - currentAge s + 1)"
  let ?st = "\<lambda>n. stateAfter_store y s assets sr h n"
  have fst_run: "fst (runSimulation_store y s assets sr h) = store (?st ?n)"
    by (simp add: runSimulation_store_def Let_def)
  have inv: "ownsCopies h (?st n)" for n
    using stateAfter_store_view [OF valid] by blast
  have refs: "workRefs (?st n) = [length (assetObjs h) ..< length (assetObjs h) + length assets]" for n
    using stateAfter_store_view [OF valid, of y s sr n] initState_store_view(3) [OF valid] by simp
  have tk: "take (length (assetObjs h)) (assetObjs (store (?st n))) = assetObjs h" for n
    using inv [of n] by (simp add: ownsCopies_def)
  have str: "streamObjs (store (?st n)) = streamObjs h" for n
    using inv [of n] by (simp add: ownsCopies_def)
  have same: "assetObjs (store (?st n)) ! a = assetObjs h ! a" if "a < length (assetObjs h)" for n a
  proof -
    have "take (length (assetObjs h)) (assetObjs (store (?st n))) ! a = assetObjs h ! a"
      by (simp add: tk)
    then show ?thesis using that by simp
  qed
  have assets_same: "readAssets (store (?st n)) assets = readAssets h assets" for n
    using valid same by (simp add: readAssets_def)
  have streams_same: "readStreams (store (?st n)) sr = readStreams h sr" for n
    by (simp add: readStreams_def str)
  have disjoint: "set (workRefs (?st n)) \<inter> set assets = {}" for n
    using valid by (auto simp: refs)
  have v: "view (?st ?n) = stateAfter y s (readAssets h assets) (readStreams h sr) ?n"
    using stateAfter_store_view [OF valid] by blast
  have dep: "ss_depletionAge (?st ?n)
      = st_depletionAge (stateAfter y s (readAssets h assets) (readStreams h sr) ?n)"
    using arg_cong [OF v, of st_depletionAge] by (simp add: view_def)
  have bal: "ss_portfolioBalance (?st ?n)
      = st_portfolioBalance (stateAfter y s (readAssets h assets) (readStreams h sr) ?n)"
    using arg_cong [OF v, of st_portfolioBalance] by (simp add: view_def)
  have dat: "ss_data (?st ?n)
      = st_data (stateAfter y s (readAssets h assets) (readStreams h sr) ?n)"
    using arg_cong [OF v, of st_data] by (simp add: view_def)
  have result: "snd (runSimulation_store y s assets sr h)
       = runSimulation y s (readAssets h assets) (readStreams h sr)"
    by (simp add: runSimulation_store_def runSimulation_def Let_def dep bal dat)
  show "readAssets (fst (runSimulation_store y s assets sr h)) assets = readAssets h assets
   \<and> readStreams (fst (runSimulation_store y s assets sr h)) sr = readStreams h sr
   \<and> take (length (assetObjs h)) (assetObjs (fst (runSimulation_store y s assets sr h)))
       = assetObjs h
   \<and> streamObjs (fst (runSimulation_store y s assets sr h)) = streamObjs h
   \<and> (\<forall>n. workRefs (?st n)
             = [length (assetObjs h) ..< length (assetObjs h) + length assets]
          \<and> set (workRefs (?st n)) \<inter> set assets = {}
          \<and> take (length (assetObjs h)) (assetObjs (store (?st n))) = assetObjs h
          \<and> streamObjs (store (?st n)) = streamObjs h)
   \<and> snd (runSimulation_store y s assets sr h)
       = runSimulation y s (readAssets h assets) (readStreams h sr)"
    using refs disjoint tk str result
    by (simp add: fst_run assets_same streams_same)
qed

theorem C8_inputs_not_mutated_witness:
  "readAssets callerStore [0] = scenarioB_assets
   \<and> readAssets (fst (runSimulation_store 2026 scenarioB_settings [0] [] callerStore)) [0]
       = scenarioB_assets
   \<and> streamObjs (fst (runSimulation_store 2026 scenarioB_settings [0] [] callerStore))
       = pensionStreams
   \<and> workRefs (stateAfter_store 2026 scenarioB_settings [0] [] callerStore 2) = [1]
   \<and> map balance (assetObjs (fst (runSimulation_store 2026 scenarioB_settings [0] [] callerStore)))
       = [1000, 0]
   \<and> snd (runSimulation_store 2026 scenarioB_settings [0] [] callerStore)
       = runSimulation 2026 scenarioB_settings scenarioB_assets []"
proof -
  have valid: "\<forall>a \<in> set [0]. a < length (assetObjs callerStore)"
    by (simp add: callerStore_def scenarioB_assets_def)
  have before: "readAssets callerStore [0] = scenarioB_assets"
    by (simp add: readAssets_def callerStore_def scenarioB_assets_def)
  have len: "length (assetObjs callerStore) = 1"
    by (simp add: callerStore_def scenarioB_assets_def)
  have str: "streamObjs callerStore = pensionStreams"
    by (simp add: callerStore_def)
  note inst = C8_inputs_not_mutated [where assets = "[0]" and h = callerStore and y = 2026
    and s = scenarioB_settings and sr = "[]", THEN mp, OF valid]
  from inst have a: "readAssets (fst (runSimulation_store 2026 scenarioB_settings [0] [] callerStore)) [0]
       = scenarioB_assets"
    by (simp add: before)
  from inst have b: "streamObjs (fst (runSimulation_store 2026 scenarioB_settings [0] [] callerStore))
       = pensionStreams"
    by (simp add: str)
  from inst have "\<forall>n. workRefs (stateAfter_store 2026 scenarioB_settings [0] [] callerStore n)
             = [length (assetObjs callerStore) ..< length (assetObjs callerStore) + length [0::nat]]"
    by blast
  then have c: "workRefs (stateAfter_store 2026 scenarioB_settings [0] [] callerStore 2) = [1]"
    by (simp add: len)
  from inst have d: "snd (runSimulation_store 2026 scenarioB_settings [0] [] callerStore)
       = runSimulation 2026 scenarioB_settings scenarioB_assets []"
    by (simp add: before readStreams_def)
  have e: "map balance (assetObjs (fst (runSimulation_store 2026 scenarioB_settings [0] [] callerStore)))
       = [1000, 0]"
    by (simp add: runSimulation_store_def stateAfter_store_def simYear_store_def
        initState_store_def copyAssets_def copyStep_def newAsset_def forEachAsset_def
        writeAsset_def executeWithdrawal_store_def readAssets_def readStreams_def
        callerStore_def engine_defs scenarioB_settings_def scenarioB_assets_def upt_0_2 Let_def)
  from before a b c d e show ?thesis by simp
qed

end
